theory Spec2Isabelle
  imports Main
begin

section \<open>Class composition: the in-repo flattener\<close>

text \<open>
  The type \<open>ClassValue\<close> of \<^verbatim>\<open>src/unnamed/part_000\<close> (repeated in
  \<^verbatim>\<open>Card.tsx\<close> and \<^verbatim>\<open>AlertDialog.tsx\<close>): a string, a number, an array of class
  values, an object from keys to booleans, \<open>null\<close> or \<open>undefined\<close>. The constructor
  \<open>Bool\<close> stands for a boolean handed over in place of a class value (the result of
  \<^verbatim>\<open>cond && "token"\<close>); the flattener tests its argument with \<open>typeof\<close> and so gives
  every such value a result. An object is kept as the list of its own properties in
  insertion order, one pair for each key. A number is an \<open>int\<close>: the flattener never
  reads its value.
\<close>

datatype ClassValue =
    Str string
  | Num int
  | Arr "ClassValue list"
  | Obj "(string \<times> bool) list"
  | Null
  | Undefined
  | Bool bool

text \<open>\<open>Array.prototype.join(" ")\<close> on an array of strings.\<close>

fun join_sp :: "string list \<Rightarrow> string" where
  "join_sp [] = []"
| "join_sp [x] = x"
| "join_sp (x # y # ys) = x @ CHR '' '' # join_sp (y # ys)"

subsection \<open>\<open>Object.entries\<close>\<close>

text \<open>
  \<open>Object.entries\<close> lists the own properties of an object in the order the language
  fixes for property keys: first the keys that are array indices, in ascending numeric
  order, then the other string keys in insertion order. A key is an array index when
  it is the canonical decimal form (no sign, no leading zero) of an integer below
  \<open>2^32 - 1\<close>.
\<close>

definition digit_of :: "char \<Rightarrow> nat option" where
  "digit_of c =
     map_of [(CHR ''0'', 0), (CHR ''1'', 1), (CHR ''2'', 2), (CHR ''3'', 3), (CHR ''4'', 4),
             (CHR ''5'', 5), (CHR ''6'', 6), (CHR ''7'', 7), (CHR ''8'', 8), (CHR ''9'', 9)] c"

fun digits_value :: "nat \<Rightarrow> string \<Rightarrow> nat option" where
  "digits_value acc [] = Some acc"
| "digits_value acc (c # cs) =
     (case digit_of c of
        None \<Rightarrow> None
      | Some d \<Rightarrow> digits_value (10 * acc + d) cs)"

definition array_index :: "string \<Rightarrow> nat option" where
  "array_index k =
     (if k = [] then None
      else if hd k = CHR ''0'' \<and> k \<noteq> ''0'' then None
      else
        (case digits_value 0 k of
           None \<Rightarrow> None
         | Some n \<Rightarrow> if n < 4294967295 then Some n else None))"

definition index_rank :: "string \<times> bool \<Rightarrow> nat" where
  "index_rank p = (case array_index (fst p) of None \<Rightarrow> 0 | Some n \<Rightarrow> n)"

definition Object_entries :: "(string \<times> bool) list \<Rightarrow> (string \<times> bool) list" where
  "Object_entries props =
     sort_key index_rank (filter (\<lambda>p. array_index (fst p) \<noteq> None) props)
     @ filter (\<lambda>p. array_index (fst p) = None) props"

subsection \<open>The flattener\<close>

text \<open>
  The inner arrow function \<open>clsx\<close> of \<^verbatim>\<open>part_000\<close>, lines 17 to 29. Its branches in
  order: a string is returned as it is; an array maps itself over the elements, drops
  the empty results (\<open>filter(Boolean)\<close>) and joins with a space; an object that is not
  \<open>null\<close> keeps the keys of \<open>Object.entries\<close> whose value is truthy and joins them;
  everything else (a number,
  \<open>null\<close>, \<open>undefined\<close>, a boolean) gives the empty string.
\<close>

fun clsx_inner :: "ClassValue \<Rightarrow> string" where
  "clsx_inner (Str s) = s"
| "clsx_inner (Arr xs) = join_sp (filter (\<lambda>s. s \<noteq> []) (map clsx_inner xs))"
| "clsx_inner (Obj props) = join_sp (map fst (filter snd (Object_entries props)))"
| "clsx_inner (Num n) = []"
| "clsx_inner Null = []"
| "clsx_inner Undefined = []"
| "clsx_inner (Bool b) = []"

text \<open>The variadic wrapper \<open>clsx(...inputs)\<close>: the rest arguments arrive as one array.\<close>

definition clsx :: "ClassValue list \<Rightarrow> string" where
  "clsx inputs = clsx_inner (Arr inputs)"

text \<open>
  \<open>cn(...inputs)\<close> of \<^verbatim>\<open>part_000\<close>, lines 33 to 35: \<open>twMerge(clsx(inputs))\<close>. The rest
  array is handed to \<open>clsx\<close> as its single argument. \<open>twMerge\<close> comes from the package
  tailwind-merge and is a parameter here.
\<close>

definition cn :: "(string \<Rightarrow> string) \<Rightarrow> ClassValue list \<Rightarrow> string" where
  "cn twMerge inputs = twMerge (clsx [Arr inputs])"


section \<open>Class composition: the merger\<close>

text \<open>
  The merger works on the flattened string. Splitting at spaces gives its tokens; runs
  of spaces separate once and leave no empty token.
\<close>

fun split_acc :: "string \<Rightarrow> string \<Rightarrow> string list" where
  "split_acc cur [] = (if cur = [] then [] else [cur])"
| "split_acc cur (c # cs) =
     (if c = CHR '' '' then (if cur = [] then split_acc [] cs else cur # split_acc [] cs)
      else split_acc (cur @ [c]) cs)"

definition split_ws :: "string \<Rightarrow> string list" where
  "split_ws s = split_acc [] s"

text \<open>A class token: a non-empty string without a space.\<close>

definition token :: "string \<Rightarrow> bool" where
  "token t = (t \<noteq> [] \<and> CHR '' '' \<notin> set t)"

text \<open>
  Modelled from the spec: \<open>twMerge\<close>, the function of the package tailwind-merge that
  every \<open>cn\<close> calls; the package is not part of the sources. Section 4.2 of the spec:
  each token has a CategoryKey under a fixed rule set, or none when its stem is not
  recognised; tokens are processed in order; a token without a key passes to the output
  in its place; of the tokens that share a key only the last-occurring one appears, at
  its own place. The rule set is the parameter \<open>categoryKey\<close>.
\<close>

fun merge_tokens :: "(string \<Rightarrow> 'k option) \<Rightarrow> string list \<Rightarrow> string list" where
  "merge_tokens categoryKey [] = []"
| "merge_tokens categoryKey (t # ts) =
     (case categoryKey t of
        None \<Rightarrow> t # merge_tokens categoryKey ts
      | Some k \<Rightarrow>
          if Some k \<in> set (map categoryKey ts) then merge_tokens categoryKey ts
          else t # merge_tokens categoryKey ts)"

text \<open>
  Modelled from the spec: \<open>twMerge\<close> on strings. The output holds the surviving tokens
  space-joined, with no leading or trailing space (section 3 of the spec).
\<close>

definition twMerge_spec :: "(string \<Rightarrow> 'k option) \<Rightarrow> string \<Rightarrow> string" where
  "twMerge_spec categoryKey s = join_sp (merge_tokens categoryKey (split_ws s))"

section \<open>The page-local button of \<^verbatim>\<open>src/unnamed/part_000\<close>\<close>

datatype ButtonVariant_page =
  primary_page | secondary_page | subtle_page | outline_page | ghost_page | link_page

datatype ButtonShape_page = square_page | rounded_page | squircle_page | circle_page

datatype ButtonSize_page = xs_page | sm_page | md_page | lg_page | xl_page

text \<open>
  The argument object of \<open>getButtonClasses\<close>, lines 97 to 104. Every property is
  optional; \<open>None\<close> is \<open>undefined\<close>. The color is a string: the table below is read at
  whatever key arrives.
\<close>

record ButtonProps_page =
  variant_page :: "ButtonVariant_page option"
  size_page :: "ButtonSize_page option"
  color_page :: "string option"
  shape_page :: "ButtonShape_page option"
  loading_page :: "bool option"
  disabled_page :: "bool option"

text \<open>Truthiness of an optional boolean: only \<open>true\<close> is truthy.\<close>

definition truthy :: "bool option \<Rightarrow> bool" where
  "truthy b = (b = Some True)"

definition sizeClasses_page :: "ButtonSize_page \<Rightarrow> string" where
  "sizeClasses_page s =
     (case s of
        xs_page \<Rightarrow> ''h-6 px-2 text-xs''
      | sm_page \<Rightarrow> ''h-8 px-3 text-sm''
      | md_page \<Rightarrow> ''h-10 px-4 text-sm''
      | lg_page \<Rightarrow> ''h-12 px-6 text-base''
      | xl_page \<Rightarrow> ''h-14 px-8 text-lg'')"

definition shapeClasses_page :: "ButtonShape_page \<Rightarrow> string" where
  "shapeClasses_page s =
     (case s of
        square_page \<Rightarrow> ''rounded-lg''
      | rounded_page \<Rightarrow> ''rounded-full''
      | squircle_page \<Rightarrow> ''rounded-xl''
      | circle_page \<Rightarrow> ''rounded-full aspect-square p-0'')"

text \<open>
  \<open>colorMap\<close>, lines 123 to 136: two entries, each with a \<open>primary\<close> and an \<open>outline\<close>
  string (in this order in the pair). Any other key has no entry.
\<close>

definition colorMap_blue :: "string \<times> string" where
  "colorMap_blue =
     (''bg-blue-600 text-white hover:bg-blue-700 dark:bg-blue-500 dark:hover:bg-blue-600 focus-visible:ring-blue-500'',
      ''border border-blue-600 text-blue-600 hover:bg-blue-50 dark:border-blue-500 dark:text-blue-400 dark:hover:bg-slate-700'')"

definition colorMap_page :: "string \<Rightarrow> (string \<times> string) option" where
  "colorMap_page c =
     (if c = ''blue'' then Some colorMap_blue
      else if c = ''gray'' then Some
        (''bg-gray-600 text-white hover:bg-gray-700 dark:bg-gray-500 dark:hover:bg-gray-600 focus-visible:ring-gray-500'',
         ''border border-gray-300 text-gray-700 hover:bg-gray-50 dark:border-slate-600 dark:text-gray-300 dark:hover:bg-slate-700'')
      else None)"

text \<open>
  \<open>variantMap\<close>, lines 138 to 148. \<open>colorMap[color]?.primary || colorMap.blue.primary\<close>:
  the entry of the color when there is one, the blue entry otherwise.
\<close>

definition variantMap_page :: "string \<Rightarrow> ButtonVariant_page \<Rightarrow> string" where
  "variantMap_page color v =
     (case v of
        primary_page \<Rightarrow>
          (case colorMap_page color of
             Some e \<Rightarrow> fst e
           | None \<Rightarrow> fst colorMap_blue)
      | outline_page \<Rightarrow>
          (case colorMap_page color of
             Some e \<Rightarrow> snd e
           | None \<Rightarrow> snd colorMap_blue)
      | secondary_page \<Rightarrow>
          ''bg-gray-100 text-gray-700 hover:bg-gray-200 dark:bg-gray-800 dark:text-gray-100 dark:hover:bg-gray-700''
      | subtle_page \<Rightarrow>
          ''bg-transparent text-gray-700 hover:bg-gray-100 dark:text-gray-300 dark:hover:bg-slate-700''
      | ghost_page \<Rightarrow>
          ''bg-transparent text-gray-700 hover:text-blue-600 dark:text-gray-300 dark:hover:text-blue-400''
      | link_page \<Rightarrow>
          ''bg-transparent text-blue-600 hover:text-blue-700 underline dark:text-blue-400 dark:hover:text-blue-300'')"

text \<open>
  \<open>getButtonClasses\<close> of \<^verbatim>\<open>part_000\<close>, lines 97 to 163, with the defaults of its
  parameter list (\<open>primary\<close>, \<open>md\<close>, \<open>blue\<close>, \<open>rounded\<close>). Every variant has a non-empty
  entry in \<open>variantMap\<close>, so \<open>variantMap[variant] || variantMap.primary\<close> is the entry
  of the variant.
\<close>

definition getButtonClasses_page :: "(string \<Rightarrow> string) \<Rightarrow> ButtonProps_page \<Rightarrow> string" where
  "getButtonClasses_page twMerge props =
     (let variant = (case variant_page props of None \<Rightarrow> primary_page | Some v \<Rightarrow> v);
          size = (case size_page props of None \<Rightarrow> md_page | Some s \<Rightarrow> s);
          color = (case color_page props of None \<Rightarrow> ''blue'' | Some c \<Rightarrow> c);
          shape = (case shape_page props of None \<Rightarrow> rounded_page | Some s \<Rightarrow> s);
          base = ''font-semibold transition-all duration-200 focus:outline-none focus-visible:ring-4 focus-visible:ring-offset-2'';
          disabledClasses =
            (if truthy (disabled_page props) \<or> truthy (loading_page props)
             then ''opacity-50 cursor-not-allowed'' else '''');
          finalVariantClass = variantMap_page color variant
      in cn twMerge
           [Str base, Str (sizeClasses_page size), Str (shapeClasses_page shape),
            Str finalVariantClass, Str disabledClasses,
            Str (if truthy (loading_page props) then ''pointer-events-none'' else '''')])"


section \<open>The palette of \<^verbatim>\<open>src/components/utils/FlexTail-config.ts\<close>\<close>

definition TAILWIND_COLORS :: "string list" where
  "TAILWIND_COLORS =
     [''red'', ''orange'', ''amber'', ''yellow'', ''lime'', ''green'', ''emerald'', ''teal'',
      ''cyan'', ''sky'', ''blue'', ''indigo'', ''violet'', ''purple'', ''fuchsia'', ''pink'',
      ''rose'', ''slate'', ''gray'', ''zinc'', ''neutral'', ''stone'']"

text \<open>The object \<open>getColorClass\<close> returns: a style object (as its entries) and a class string.\<close>

record ColorClass =
  style :: "(string \<times> string) list"
  className :: string

text \<open>
  The table \<open>variants\<close> of \<open>getColorClass\<close>, lines 82 to 91, for the palette color \<open>c\<close>:
  its own keys in the order of the source.
\<close>

definition variants_cfg :: "string \<Rightarrow> (string \<times> string) list" where
  "variants_cfg c =
     [(''primary'', ''bg-'' @ c @ ''-600 text-white hover:bg-'' @ c @ ''-700 dark:bg-'' @ c
          @ ''-500 dark:hover:bg-'' @ c @ ''-400 shadow-sm''),
      (''secondary'', ''bg-'' @ c @ ''-100 text-'' @ c @ ''-900 hover:bg-'' @ c @ ''-200 dark:bg-'' @ c
          @ ''-900/40 dark:text-'' @ c @ ''-100 dark:hover:bg-'' @ c @ ''-900/60''),
      (''tertiary'', ''bg-'' @ c @ ''-50 text-'' @ c @ ''-700 hover:bg-'' @ c @ ''-100 dark:bg-'' @ c
          @ ''-900/20 dark:text-'' @ c @ ''-200''),
      (''outline'', ''border-2 border-'' @ c @ ''-500 text-'' @ c @ ''-600 hover:bg-'' @ c
          @ ''-50 dark:border-'' @ c @ ''-400 dark:text-'' @ c @ ''-400 dark:hover:bg-'' @ c @ ''-950''),
      (''ghost'', ''text-'' @ c @ ''-600 hover:bg-'' @ c @ ''-50 dark:text-'' @ c
          @ ''-400 dark:hover:bg-'' @ c @ ''-900/50''),
      (''link'', ''text-'' @ c @ ''-600 underline-offset-4 hover:underline decoration-'' @ c
          @ ''-600 p-0 h-auto dark:text-'' @ c @ ''-400''),
      (''grayscale'', ''bg-gray-200 text-gray-800 hover:bg-gray-300 dark:bg-gray-800 dark:text-gray-200 dark:hover:bg-gray-700''),
      (''binary'', ''bg-black text-white hover:bg-neutral-800 dark:bg-white dark:text-black dark:hover:bg-neutral-200'')]"

text \<open>
  \<open>getColorClass\<close>, lines 59 to 94. A color outside \<open>TAILWIND_COLORS\<close> takes the first
  branch: the color goes into the custom property \<open>--btn-color\<close> and the classes refer
  to that property. A palette color reads \<open>variants[variant] || variants.primary\<close>. The
  variant is one of the table's own keys or a name that is no property of the table at
  all; names the table inherits from \<open>Object.prototype\<close> are not modelled.
\<close>

definition getColorClass :: "string \<Rightarrow> string \<Rightarrow> bool \<Rightarrow> ColorClass" where
  "getColorClass color variant isDark =
     (let isTailwind = (color \<in> set TAILWIND_COLORS) in
      if \<not> isTailwind then
        \<lparr> style = [(''--btn-color'', color)],
          className =
            (if variant = ''outline'' then ''border-[var(--btn-color)] text-[var(--btn-color)]''
             else if variant = ''ghost'' then ''text-[var(--btn-color)] hover:bg-[var(--btn-color)]/10''
             else if variant = ''link'' then ''text-[var(--btn-color)] decoration-[var(--btn-color)]''
             else ''bg-[var(--btn-color)] text-white'') \<rparr>
      else
        \<lparr> style = [],
          className =
            (case map_of (variants_cfg color) variant of
               Some s \<Rightarrow> s
             | None \<Rightarrow> snd (hd (variants_cfg color))) \<rparr>)"


section \<open>The shared button utilities of \<^verbatim>\<open>src/unnamed/part_002\<close>\<close>

datatype ButtonVariant_utils = primary_utils | secondary_utils | ghost_utils | link_utils

datatype ButtonColor_utils = blue_utils | red_utils | green_utils | yellow_utils | gray_utils

datatype ButtonType =
  button_type | submit_type | reset_type | default_type | add_type | error_type
  | accept_type | danger_type

record ColorMap =
  primaryBg :: string
  hoverPrimaryBg :: string
  secondaryBg :: string
  hoverSecondaryBg :: string
  textColor :: string
  focusRing :: string

text \<open>\<open>COLOR_MAPS\<close>, lines 77 to 118 (the field \<open>text\<close> is \<open>textColor\<close> here).\<close>

definition COLOR_MAPS :: "ButtonColor_utils \<Rightarrow> ColorMap" where
  "COLOR_MAPS c =
     (case c of
        blue_utils \<Rightarrow>
          \<lparr> primaryBg = ''bg-blue-600'', hoverPrimaryBg = ''hover:bg-blue-700'',
            secondaryBg = ''bg-blue-100 dark:bg-blue-900/50'',
            hoverSecondaryBg = ''hover:bg-blue-200 dark:hover:bg-blue-800/50'',
            textColor = ''text-blue-600 dark:text-blue-300'', focusRing = ''focus:ring-blue-500'' \<rparr>
      | red_utils \<Rightarrow>
          \<lparr> primaryBg = ''bg-red-600'', hoverPrimaryBg = ''hover:bg-red-700'',
            secondaryBg = ''bg-red-100 dark:bg-red-900/50'',
            hoverSecondaryBg = ''hover:bg-red-200 dark:hover:bg-red-800/50'',
            textColor = ''text-red-600 dark:text-red-300'', focusRing = ''focus:ring-red-500'' \<rparr>
      | green_utils \<Rightarrow>
          \<lparr> primaryBg = ''bg-green-600'', hoverPrimaryBg = ''hover:bg-green-700'',
            secondaryBg = ''bg-green-100 dark:bg-green-900/50'',
            hoverSecondaryBg = ''hover:bg-green-200 dark:hover:bg-green-800/50'',
            textColor = ''text-green-600 dark:text-green-300'', focusRing = ''focus:ring-green-500'' \<rparr>
      | yellow_utils \<Rightarrow>
          \<lparr> primaryBg = ''bg-yellow-600'', hoverPrimaryBg = ''hover:bg-yellow-700'',
            secondaryBg = ''bg-yellow-100 dark:bg-yellow-900/50'',
            hoverSecondaryBg = ''hover:bg-yellow-200 dark:hover:bg-yellow-800/50'',
            textColor = ''text-yellow-600 dark:text-yellow-300'', focusRing = ''focus:ring-yellow-500'' \<rparr>
      | gray_utils \<Rightarrow>
          \<lparr> primaryBg = ''bg-gray-700'', hoverPrimaryBg = ''hover:bg-gray-800'',
            secondaryBg = ''bg-gray-200 dark:bg-gray-700/50'',
            hoverSecondaryBg = ''hover:bg-gray-300 dark:hover:bg-gray-600/50'',
            textColor = ''text-gray-700 dark:text-gray-200'', focusRing = ''focus:ring-gray-400'' \<rparr>)"

text \<open>
  \<open>getButtonClasses\<close> of \<^verbatim>\<open>part_002\<close>, lines 120 to 166. Its \<open>cn\<close> is the composition of
  the packages clsx and tailwind-merge, neither of them in the sources: a parameter
  that takes the argument strings. The guard on \<open>isDisabled\<close> comes first and returns a
  literal; only the other paths read \<open>COLOR_MAPS\<close> and call \<open>cn\<close>. The four variants
  of the type are the four cases of the \<open>switch\<close>.
\<close>

definition getButtonClasses_utils ::
  "(string list \<Rightarrow> string) \<Rightarrow> ButtonVariant_utils \<Rightarrow> ButtonColor_utils \<Rightarrow> ButtonType \<Rightarrow> bool \<Rightarrow> string"
where
  "getButtonClasses_utils cn_ext variant color type isDisabled =
     (if isDisabled then
        ''bg-gray-200 text-gray-400 dark:bg-gray-700 dark:text-gray-500 cursor-not-allowed shadow-none''
      else
        (let colors = COLOR_MAPS color in
         case variant of
           primary_utils \<Rightarrow>
             cn_ext [primaryBg colors, hoverPrimaryBg colors,
                     ''text-white shadow-md shadow-black/10'', focusRing colors]
         | secondary_utils \<Rightarrow>
             cn_ext [secondaryBg colors, hoverSecondaryBg colors, textColor colors,
                     ''border border-transparent'', focusRing colors]
         | ghost_utils \<Rightarrow>
             cn_ext [''bg-transparent hover:bg-gray-50 dark:hover:bg-gray-800'', textColor colors,
                     ''border border-transparent'', focusRing colors]
         | link_utils \<Rightarrow>
             cn_ext [''bg-transparent'', textColor colors, ''hover:underline'',
                     ''p-0 shadow-none'', focusRing colors]))"

text \<open>
  \<open>Button\<close> of \<^verbatim>\<open>src/components/ui/Button.tsx\<close>, lines 199 to 201: the button counts as
  disabled when \<open>disabled\<close> or \<open>loading\<close> is set (both default to \<open>false\<close>), and asks
  \<open>getButtonClasses\<close> for its variant classes with that flag.
\<close>

definition Button_variantClass ::
  "(string list \<Rightarrow> string) \<Rightarrow> ButtonVariant_utils \<Rightarrow> ButtonColor_utils \<Rightarrow> ButtonType \<Rightarrow> bool \<Rightarrow> bool \<Rightarrow> string"
where
  "Button_variantClass cn_ext variant color type disabled loading =
     (let isDisabled = (disabled \<or> loading)
      in getButtonClasses_utils cn_ext variant color type isDisabled)"


section \<open>Button groups\<close>



subsection \<open>\<open>ButtonGroup\<close> of \<^verbatim>\<open>src/components/ui/Button.tsx\<close>\<close>





subsection \<open>\<open>ButtonGroup\<close> of \<^verbatim>\<open>src/unnamed/part_001\<close>\<close>

text \<open>\<open>GroupPosition\<close>, line 284: this file has no tag for a lone button.\<close>

datatype GroupPosition_p1 = first_p1 | middle_p1 | last_p1 | none_p1




section \<open>The alert dialog of \<^verbatim>\<open>src/components/ui/AlertDialog.tsx\<close>\<close>

subsection \<open>The document\<close>

text \<open>
  An element of the rendered document: its tag and its attributes. The descendants of
  the dialog are a list in document order, which is the order \<open>querySelector\<close> and
  \<open>querySelectorAll\<close> search in. Class names and event handlers are left out of the
  attributes: no selector of the dialog reads them.
\<close>

record element =
  tag :: string
  attrs :: "(string \<times> string) list"

text \<open>
  A node that can hold the focus: something outside the dialog, the dialog container,
  or the descendant at a position of the document order.
\<close>

datatype node = Outside nat | DialogContainer | Descendant nat

definition has_attr :: "string \<Rightarrow> element \<Rightarrow> bool" where
  "has_attr a e = (map_of (attrs e) a \<noteq> None)"

text \<open>The selector \<^verbatim>\<open>[data-default="true"]\<close>.\<close>

definition sel_default :: "element \<Rightarrow> bool" where
  "sel_default e = (map_of (attrs e) ''data-default'' = Some ''true'')"

text \<open>The selector \<^verbatim>\<open>button, [href], input, select, textarea\<close> of line 328.\<close>

definition sel_focusable :: "element \<Rightarrow> bool" where
  "sel_focusable e =
     (tag e = ''button'' \<or> has_attr ''href'' e \<or> tag e = ''input'' \<or> tag e = ''select''
      \<or> tag e = ''textarea'')"

text \<open>
  The selector of line 298, which the key handler uses:
  \<^verbatim>\<open>button, [href], input, select, textarea, [tabindex]:not([tabindex="-1"])\<close>.
\<close>

definition sel_tabbable :: "element \<Rightarrow> bool" where
  "sel_tabbable e =
     (tag e = ''button'' \<or> has_attr ''href'' e \<or> tag e = ''input'' \<or> tag e = ''select''
      \<or> tag e = ''textarea''
      \<or> (has_attr ''tabindex'' e \<and> map_of (attrs e) ''tabindex'' \<noteq> Some ''-1''))"

text \<open>The positions of the matching descendants, in document order.\<close>

definition querySelectorAll :: "(element \<Rightarrow> bool) \<Rightarrow> element list \<Rightarrow> nat list" where
  "querySelectorAll sel els = filter (\<lambda>i. sel (els ! i)) [0..<length els]"

text \<open>The first match, or \<open>null\<close>.\<close>

definition querySelector :: "(element \<Rightarrow> bool) \<Rightarrow> element list \<Rightarrow> nat option" where
  "querySelector sel els =
     (case querySelectorAll sel els of [] \<Rightarrow> None | i # rest \<Rightarrow> Some i)"

subsection \<open>The effect that runs while the dialog is open\<close>

text \<open>
  What the effect of lines 286 to 339 reads and writes: the document's active element,
  the ref that remembers the element focused before the dialog opened, whether
  \<open>handleKeyDown\<close> is registered on the document, and how often \<open>onClose\<close> was called.
\<close>

record dialog_state =
  activeElement :: "node option"
  triggerElementRef :: "node option"
  keydownListener :: bool
  onCloseCalls :: nat

text \<open>
  A form control that carries the attribute \<open>disabled\<close>. The dialog renders its buttons
  with \<open>disabled\<close> whenever \<open>disabled || loading\<close> holds (line 226).
\<close>

definition is_disabled :: "element \<Rightarrow> bool" where
  "is_disabled e =
     (has_attr ''disabled'' e \<and> tag e \<in> set [''button'', ''input'', ''select'', ''textarea''])"

text \<open>
  \<open>el.focus()\<close> in a document whose dialog has the descendants \<open>els\<close>: the element
  becomes the active element, except that the call does nothing on a disabled form
  control. The dialog container has \<open>tabIndex = -1\<close> and takes the focus.
\<close>

definition focus :: "element list \<Rightarrow> node \<Rightarrow> dialog_state \<Rightarrow> dialog_state" where
  "focus els n s =
     (case n of
        Descendant i \<Rightarrow>
          if i < length els \<and> \<not> is_disabled (els ! i) then s\<lparr>activeElement := Some n\<rparr> else s
      | DialogContainer \<Rightarrow> s\<lparr>activeElement := Some n\<rparr>
      | Outside k \<Rightarrow> s\<lparr>activeElement := Some n\<rparr>)"

text \<open>
  The callback handed to \<open>requestAnimationFrame\<close>, lines 322 to 339. \<open>dialogRef\<close> is
  \<open>None\<close> while \<open>dialogRef.current\<close> is \<open>null\<close>, and otherwise holds the descendants of
  the dialog container.
\<close>

definition focusOnOpen :: "element list option \<Rightarrow> dialog_state \<Rightarrow> dialog_state" where
  "focusOnOpen dialogRef s =
     (case dialogRef of
        None \<Rightarrow> s
      | Some els \<Rightarrow>
          (let defaultButton = querySelector sel_default els;
               focusable = querySelector sel_focusable els
           in case defaultButton of
                Some d \<Rightarrow> focus els (Descendant d) s
              | None \<Rightarrow>
                  (case focusable of
                     Some f \<Rightarrow> focus els (Descendant f) s
                   | None \<Rightarrow> focus els DialogContainer s)))"

text \<open>
  The effect body, lines 286 to 339, followed by the animation frame it requests: nothing
  when the dialog is closed; otherwise the active element is stored in
  \<open>triggerElementRef\<close>, the key handler is registered and the frame callback runs.
\<close>

definition openEffect :: "bool \<Rightarrow> element list option \<Rightarrow> dialog_state \<Rightarrow> dialog_state" where
  "openEffect isOpen dialogRef s =
     (if \<not> isOpen then s
      else focusOnOpen dialogRef
             (s\<lparr>triggerElementRef := activeElement s, keydownListener := True\<rparr>))"

subsection \<open>The key handler\<close>

record keyEvent =
  key :: string
  shiftKey :: bool

text \<open>
  \<open>handleKeyDown\<close>, lines 293 to 318. The result pairs the new state with whether the
  handler called \<open>event.preventDefault()\<close>, which it does after \<open>focus()\<close> whether or
  not the focus moved. \<open>first\<close> and \<open>last\<close> are read from a non-empty list only.
\<close>

definition handleKeyDown ::
  "element list option \<Rightarrow> keyEvent \<Rightarrow> dialog_state \<Rightarrow> dialog_state \<times> bool"
where
  "handleKeyDown dialogRef event s =
     (if key event = ''Escape'' then (s\<lparr>onCloseCalls := onCloseCalls s + 1\<rparr>, False)
      else if key event = ''Tab'' then
        (case dialogRef of
           None \<Rightarrow> (s, False)
         | Some els \<Rightarrow>
             (let focusableElements = querySelectorAll sel_tabbable els in
              if length focusableElements = 0 then (s, False)
              else
                (let first = focusableElements ! 0;
                     last = focusableElements ! (length focusableElements - 1)
                 in if shiftKey event then
                      (if activeElement s = Some (Descendant first)
                       then (focus els (Descendant last) s, True) else (s, False))
                    else
                      (if activeElement s = Some (Descendant last)
                       then (focus els (Descendant first) s, True) else (s, False)))))
      else (s, False))"

subsection \<open>What the dialog renders\<close>

datatype ButtonVariant_ad =
  primary_ad | secondary_ad | subtle_ad | outline_ad | ghost_ad | link_ad

text \<open>
  \<open>AlertDialogAction\<close>, lines 241 to 250, without its click handler. Optional properties
  are options; the color is a string.
\<close>

record AlertDialogAction =
  label :: string
  act_variant :: "ButtonVariant_ad option"
  act_color :: "string option"
  act_loading :: "bool option"
  act_disabled :: "bool option"
  isDefault :: "bool option"
  isDestructive :: "bool option"

definition plain :: "string \<Rightarrow> element" where
  "plain t = \<lparr> tag = t, attrs = [] \<rparr>"

text \<open>
  The elements a \<open>Button\<close> of this file renders, lines 222 to 236, in document order:
  the \<open>button\<close> with \<open>disabled\<close> (when \<open>disabled || loading\<close>) and the remaining props
  \<open>rest\<close> spread onto it, the inner \<open>div\<close>, the spinner (an \<open>svg\<close> with a \<open>circle\<close> and a
  \<open>path\<close>) when loading, and a \<open>span\<close> around the children when there are any.
\<close>

definition Button_ad ::
  "bool option \<Rightarrow> bool option \<Rightarrow> (string \<times> string) list \<Rightarrow> element list \<Rightarrow> bool \<Rightarrow> element list"
where
  "Button_ad loading disabled rest childEls hasChildren =
     (let isDisabled = (truthy disabled \<or> truthy loading) in
      \<lparr> tag = ''button'', attrs = (if isDisabled then [(''disabled'', '''')] else []) @ rest \<rparr>
      # plain ''div''
      # (if truthy loading then [plain ''svg'', plain ''circle'', plain ''path''] else [])
      @ (if hasChildren then plain ''span'' # childEls else []))"

text \<open>
  The callback of \<open>actions.map\<close>, lines 405 to 431. \<open>data-default\<close> is \<open>"true"\<close> for an
  action with \<open>isDefault\<close> and for the one at the final index, and absent otherwise. The
  label is the button's only child; an empty label is falsy and gets no \<open>span\<close>.
\<close>

definition actionButton :: "AlertDialogAction list \<Rightarrow> nat \<times> AlertDialogAction \<Rightarrow> element list" where
  "actionButton actions ia =
     (let index = fst ia; action = snd ia;
          isDefaultButton = (truthy (isDefault action) \<or> index = length actions - 1)
      in Button_ad (act_loading action) (act_disabled action)
           (if isDefaultButton then [(''data-default'', ''true'')] else [])
           [] (label action \<noteq> []))"

text \<open>
  The descendants of the dialog container, lines 380 to 432: the close button around
  its icon, the heading with the title, the paragraph with the description, and the
  row of action buttons. Title and description are arbitrary content.
\<close>

definition dialogDescendants ::
  "element list \<Rightarrow> element list \<Rightarrow> AlertDialogAction list \<Rightarrow> element list"
where
  "dialogDescendants title description actions =
     Button_ad None None [] [plain ''svg'', plain ''path''] True
     @ \<lparr> tag = ''h2'', attrs = [(''id'', ''alert-dialog-title'')] \<rparr> # title
     @ \<lparr> tag = ''p'', attrs = [(''id'', ''alert-dialog-description'')] \<rparr> # description
     @ plain ''div'' # concat (map (actionButton actions) (enumerate 0 actions))"


section \<open>Properties\<close>

subsection \<open>Flattening and merging\<close>

lemma split_acc_token:
  "CHR '' '' \<notin> set t \<Longrightarrow> split_acc cur (t @ r) = split_acc (cur @ t) r"
  by (induction t arbitrary: cur) auto

lemma split_acc_join:
  "list_all token ts \<Longrightarrow> split_acc [] (join_sp ts) = ts"
proof (induction ts rule: join_sp.induct)
  case 1
  then show ?case by simp
next
  case (2 x)
  then show ?case using split_acc_token [of x "[]" "[]"] by (simp add: token_def)
next
  case (3 x y ys)
  then show ?case using split_acc_token [of x "[]" "CHR '' '' # join_sp (y # ys)"]
    by (simp add: token_def)
qed

lemma merge_tokens_subset: "set (merge_tokens ck ts) \<subseteq> set ts"
  by (induction ts) (auto split: option.splits)

lemma merge_tokens_last:
  "ck t = Some k \<Longrightarrow> Some k \<notin> set (map ck post) \<Longrightarrow>
   t \<in> set (merge_tokens ck (pre @ t # post))"
  by (induction pre) (auto split: option.splits)

lemma merge_tokens_winner:
  "t \<in> set (merge_tokens ck (pre @ b # post)) \<Longrightarrow> ck t = Some k \<Longrightarrow>
   ck b = Some k \<Longrightarrow> Some k \<notin> set (map ck post) \<Longrightarrow> t = b"
proof (induction pre)
  case Nil
  then have "t = b \<or> t \<in> set (merge_tokens ck post)"
    by (auto split: option.splits if_splits)
  moreover have "t \<notin> set post"
    using Nil.prems(2,4) by force
  ultimately show ?case
    using merge_tokens_subset [of ck post] by blast
next
  case (Cons a pre)
  then show ?case
    by (auto split: option.splits if_splits)
qed

lemma filter_tokens: "list_all token ts \<Longrightarrow> filter (\<lambda>s. s \<noteq> []) ts = ts"
  by (induction ts) (auto simp: token_def)

lemma merge_tokens_all: "list_all token ts \<Longrightarrow> list_all token (merge_tokens ck ts)"
  using merge_tokens_subset [of ck ts] by (auto simp: list_all_iff)

text \<open>
  On a sequence of tokens, \<open>cn\<close> with the modelled merger returns the merged tokens
  space-joined: flattening joins them, the merger splits them again.
\<close>

lemma cn_spec_tokens:
  assumes "list_all token ts"
  shows "split_ws (cn (twMerge_spec ck) (map Str ts)) = merge_tokens ck ts"
proof -
  have "clsx [Arr (map Str ts)] = join_sp ts"
    using assms by (simp add: clsx_def comp_def filter_tokens)
  then have "cn (twMerge_spec ck) (map Str ts) = join_sp (merge_tokens ck ts)"
    using assms by (simp add: cn_def twMerge_spec_def split_ws_def split_acc_join)
  then show ?thesis
    using merge_tokens_all [OF assms, of ck] by (simp add: split_ws_def split_acc_join)
qed

text \<open>
  C1. Let \<open>ts\<close> be a sequence of tokens in which the tokens at positions \<open>i < j\<close> are
  two different tokens with the same CategoryKey \<open>k\<close>, the one at \<open>j\<close> being the
  later-occurring one of that key (no token after it has the key). Then the result of
  \<open>cn\<close>, the merger applied to the flattened sequence, contains the token at \<open>j\<close> and
  does not contain the token at \<open>i\<close>. The witness is the sequence \<open>p-2\<close>, \<open>p-4\<close>.
\<close>

theorem cn_last_token_wins:
  assumes toks: "list_all token ts"
    and ij: "i < j" "j < length ts"
    and ki: "categoryKey (ts ! i) = Some k"
    and kj: "categoryKey (ts ! j) = Some k"
    and last: "Some k \<notin> set (map categoryKey (drop (Suc j) ts))"
    and ne: "ts ! i \<noteq> ts ! j"
  shows "ts ! j \<in> set (split_ws (cn (twMerge_spec categoryKey) (map Str ts))) \<and>
         ts ! i \<notin> set (split_ws (cn (twMerge_spec categoryKey) (map Str ts)))"
proof -
  have split: "ts = take j ts @ ts ! j # drop (Suc j) ts"
    using ij by (simp add: id_take_nth_drop)
  have kept: "ts ! j \<in> set (merge_tokens categoryKey ts)"
    using merge_tokens_last [OF kj last, of "take j ts"] split by simp
  have dropped: "ts ! i \<notin> set (merge_tokens categoryKey ts)"
    using merge_tokens_winner [OF _ ki kj last, of "take j ts"] split ne by auto
  show ?thesis
    unfolding cn_spec_tokens [OF toks] using kept dropped by simp
qed

theorem cn_last_token_wins_witness:
  "''p-4'' \<in> set (split_ws (cn (twMerge_spec
       (\<lambda>t. if t = ''p-2'' \<or> t = ''p-4'' then Some ''p'' else None)) [Str ''p-2'', Str ''p-4''])) \<and>
   ''p-2'' \<notin> set (split_ws (cn (twMerge_spec
       (\<lambda>t. if t = ''p-2'' \<or> t = ''p-4'' then Some ''p'' else None)) [Str ''p-2'', Str ''p-4'']))"
  using cn_last_token_wins [of "[''p-2'', ''p-4'']" 0 1
      "\<lambda>t. if t = ''p-2'' \<or> t = ''p-4'' then Some ''p'' else None" "''p''"]
  by (simp add: token_def)

text \<open>
  C2 (the code at the failing input). A number is none of string, array or object, so
  the flattener falls through to its last line and returns the empty string: the
  number leaves no token behind.
\<close>

theorem clsx_number_dropped:
  "clsx [Num 1] = [] \<and> clsx [Str ''gap'', Num 4] = ''gap''"
  by (simp add: clsx_def)

lemma Object_entries_no_index:
  "list_all (\<lambda>p. array_index (fst p) = None) props \<Longrightarrow> Object_entries props = props"
  by (simp add: Object_entries_def list_all_iff filter_empty_conv filter_id_conv)

lemma set_Object_entries: "set (Object_entries props) = set props"
  by (auto simp add: Object_entries_def)

lemma true_keys_tokens:
  "list_all (\<lambda>p. token (fst p)) props \<Longrightarrow>
   list_all token (map fst (filter snd (Object_entries props)))"
  using set_Object_entries [of props] by (auto simp add: list_all_iff)

lemma clsx_map_tokens:
  assumes "list_all (\<lambda>p. token (fst p)) props"
  shows "split_ws (clsx [Obj props]) = map fst (filter snd (Object_entries props))"
proof -
  let ?ks = "map fst (filter snd (Object_entries props))"
  have "clsx [Obj props] = join_sp ?ks"
    by (simp add: clsx_def)
  then show ?thesis
    using split_acc_join [OF true_keys_tokens [OF assms]] by (simp add: split_ws_def)
qed

text \<open>
  C3, as the claim states it, fails on a map with a key that is an array index: the
  object \<open>{b: true, "1": true}\<close> has \<open>b\<close> inserted first, and flattens to \<open>1 b\<close>.
\<close>

theorem clsx_index_key_counterexample:
  "clsx [Obj [(''b'', True), (''1'', True)]] = ''1 b''"
  by (simp add: clsx_def Object_entries_def array_index_def digit_of_def index_rank_def)

text \<open>
  C3, amended. An entry of an array that is \<open>null\<close>, \<open>undefined\<close>, \<open>false\<close> or the empty
  string contributes nothing: the array flattens to what it flattens to without the
  entry, wherever the array stands in the tree. A keyed boolean map flattens to its
  keys with a truthy value, space-joined in the order in which \<open>Object.entries\<close> lists
  them: array-index keys first in ascending numeric order, then the other keys in
  insertion order. For a map without array-index keys that is the insertion order. When
  the keys are tokens, a key is a token of the output exactly when the map holds it
  with the value \<open>true\<close>. The map \<open>{"text-red-500": false, "text-blue-500": true}\<close>
  gives exactly \<open>text-blue-500\<close>.
\<close>

theorem clsx_falsy_entries_and_maps:
  "clsx_inner (Arr (xs @ Null # ys)) = clsx_inner (Arr (xs @ ys)) \<and>
   clsx_inner (Arr (xs @ Undefined # ys)) = clsx_inner (Arr (xs @ ys)) \<and>
   clsx_inner (Arr (xs @ Bool False # ys)) = clsx_inner (Arr (xs @ ys)) \<and>
   clsx_inner (Arr (xs @ Str [] # ys)) = clsx_inner (Arr (xs @ ys)) \<and>
   clsx [Obj props] =
     join_sp (map fst (filter snd
       (sort_key index_rank (filter (\<lambda>p. array_index (fst p) \<noteq> None) props)
        @ filter (\<lambda>p. array_index (fst p) = None) props))) \<and>
   (list_all (\<lambda>p. array_index (fst p) = None) props \<longrightarrow>
      clsx [Obj props] = join_sp (map fst (filter snd props))) \<and>
   (list_all (\<lambda>p. token (fst p)) props \<longrightarrow>
      (k \<in> set (split_ws (clsx [Obj props]))) = ((k, True) \<in> set props)) \<and>
   clsx [Obj [(''text-red-500'', False), (''text-blue-500'', True)]] = ''text-blue-500''"
proof (intro conjI impI)
  show "clsx [Obj props] =
     join_sp (map fst (filter snd
       (sort_key index_rank (filter (\<lambda>p. array_index (fst p) \<noteq> None) props)
        @ filter (\<lambda>p. array_index (fst p) = None) props)))"
    by (simp add: clsx_def Object_entries_def)
next
  assume "list_all (\<lambda>p. array_index (fst p) = None) props"
  then show "clsx [Obj props] = join_sp (map fst (filter snd props))"
    using Object_entries_no_index by (simp add: clsx_def)
next
  assume "list_all (\<lambda>p. token (fst p)) props"
  then have "split_ws (clsx [Obj props]) = map fst (filter snd (Object_entries props))"
    by (rule clsx_map_tokens)
  then show "(k \<in> set (split_ws (clsx [Obj props]))) = ((k, True) \<in> set props)"
    using set_Object_entries [of props] by force
next
  show "clsx [Obj [(''text-red-500'', False), (''text-blue-500'', True)]] = ''text-blue-500''"
    by (simp add: clsx_def Object_entries_def array_index_def digit_of_def index_rank_def)
qed (simp_all add: clsx_def)

theorem clsx_falsy_entries_and_maps_witness:
  "clsx [Obj [(''p-4'', True), (''hidden'', False), (''flex'', True)]] = ''p-4 flex'' \<and>
   (''flex'' \<in> set (split_ws (clsx [Obj [(''p-4'', True), (''hidden'', False), (''flex'', True)]]))) \<and>
   (''hidden'' \<notin> set (split_ws (clsx [Obj [(''p-4'', True), (''hidden'', False), (''flex'', True)]])))"
  using clsx_falsy_entries_and_maps
      [of "[]" "[]" "[(''p-4'', True), (''hidden'', False), (''flex'', True)]" "''flex''"]
    clsx_falsy_entries_and_maps
      [of "[]" "[]" "[(''p-4'', True), (''hidden'', False), (''flex'', True)]" "''hidden''"]
  by (simp add: array_index_def digit_of_def token_def split_ws_def)

text \<open>
  C4. Flattening two trees together gives the same string as flattening each alone and
  then flattening the two results: \<open>flatten(a, b) = flatten(flatten(a), flatten(b))\<close>.
\<close>

theorem clsx_associative:
  "clsx [a, b] = clsx [Str (clsx [a]), Str (clsx [b])]"
  by (simp add: clsx_def)

subsection \<open>Colors outside the tables\<close>

lemma page_fallback:
  assumes "c \<noteq> ''blue''" "c \<noteq> ''gray''"
  shows "getButtonClasses_page twMerge (props\<lparr>color_page := Some c\<rparr>)
       = getButtonClasses_page twMerge (props\<lparr>color_page := Some ''blue''\<rparr>)"
proof -
  have "colorMap_page c = None" using assms by (simp add: colorMap_page_def)
  then have "variantMap_page c v = variantMap_page ''blue'' v" for v
    by (cases v) (simp_all add: variantMap_page_def colorMap_page_def)
  then show ?thesis by (simp add: getButtonClasses_page_def Let_def)
qed

lemma custom_has_bracket:
  "c \<notin> set TAILWIND_COLORS \<Longrightarrow> CHR ''['' \<in> set (className (getColorClass c v d))"
  by (simp add: getColorClass_def)

lemma palette_name_no_bracket:
  "p \<in> set TAILWIND_COLORS \<Longrightarrow> CHR ''['' \<notin> set p"
  by (auto simp add: TAILWIND_COLORS_def)

lemma variants_no_bracket:
  "CHR ''['' \<notin> set p \<Longrightarrow> s \<in> snd ` set (variants_cfg p) \<Longrightarrow> CHR ''['' \<notin> set s"
  by (auto simp add: variants_cfg_def)

lemma palette_class_in_table:
  "p \<in> set TAILWIND_COLORS \<Longrightarrow>
   className (getColorClass p v d) \<in> snd ` set (variants_cfg p)"
proof -
  assume p: "p \<in> set TAILWIND_COLORS"
  have hd: "snd (hd (variants_cfg p)) \<in> snd ` set (variants_cfg p)"
    by (simp add: variants_cfg_def)
  have "map_of (variants_cfg p) v = Some s \<Longrightarrow> s \<in> snd ` set (variants_cfg p)" for s
    by (metis image_eqI map_of_SomeD snd_conv)
  then show ?thesis
    using p hd by (simp add: getColorClass_def split: option.splits)
qed

lemma custom_never_palette:
  assumes "c \<notin> set TAILWIND_COLORS" "p \<in> set TAILWIND_COLORS"
  shows "className (getColorClass c v d) \<noteq> className (getColorClass p v d)"
  using custom_has_bracket [OF assms(1), of v d]
    variants_no_bracket [OF palette_name_no_bracket [OF assms(2)] palette_class_in_table [OF assms(2), of v d]]
  by auto

text \<open>
  C5, as the claim states it, fails for \<open>getColorClass\<close>: the color \<open>brand\<close> is not in the
  palette, and its primary classes are not those of \<open>indigo\<close>, the default color of the
  button that calls \<open>getColorClass\<close>.
\<close>

theorem getColorClass_custom_color_counterexample:
  "className (getColorClass ''brand'' ''primary'' False)
     \<noteq> className (getColorClass ''indigo'' ''primary'' False)"
  by (simp add: getColorClass_def TAILWIND_COLORS_def variants_cfg_def)

text \<open>
  C5, amended. \<open>getButtonClasses\<close> of \<^verbatim>\<open>part_000\<close> resolves every color without an entry
  in its \<open>colorMap\<close> (any color but \<open>blue\<close> and \<open>gray\<close>) to the blue entry: whatever the
  variant and the other properties, it returns the classes it returns for \<open>blue\<close>, which
  is also its default color. \<open>getColorClass\<close> has no fallback: for a color outside
  \<open>TAILWIND_COLORS\<close> it puts the color into the custom property \<open>--btn-color\<close>, and the
  classes it returns are those of no palette color.
\<close>

theorem unrecognized_color_resolution:
  "(c \<noteq> ''blue'' \<and> c \<noteq> ''gray'' \<longrightarrow>
      getButtonClasses_page twMerge (props\<lparr>color_page := Some c\<rparr>)
        = getButtonClasses_page twMerge (props\<lparr>color_page := Some ''blue''\<rparr>) \<and>
      getButtonClasses_page twMerge (props\<lparr>color_page := Some c\<rparr>)
        = getButtonClasses_page twMerge (props\<lparr>color_page := None\<rparr>)) \<and>
   (c \<notin> set TAILWIND_COLORS \<longrightarrow>
      style (getColorClass c v d) = [(''--btn-color'', c)] \<and>
      (\<forall>p\<in>set TAILWIND_COLORS.
         className (getColorClass c v d) \<noteq> className (getColorClass p v d)))"
proof (intro conjI impI ballI)
  assume c: "c \<noteq> ''blue'' \<and> c \<noteq> ''gray''"
  then show "getButtonClasses_page twMerge (props\<lparr>color_page := Some c\<rparr>)
        = getButtonClasses_page twMerge (props\<lparr>color_page := Some ''blue''\<rparr>)"
    using page_fallback by blast
  have "getButtonClasses_page twMerge (props\<lparr>color_page := None\<rparr>)
        = getButtonClasses_page twMerge (props\<lparr>color_page := Some ''blue''\<rparr>)"
    by (simp add: getButtonClasses_page_def)
  then show "getButtonClasses_page twMerge (props\<lparr>color_page := Some c\<rparr>)
        = getButtonClasses_page twMerge (props\<lparr>color_page := None\<rparr>)"
    using c page_fallback by metis
next
  assume "c \<notin> set TAILWIND_COLORS"
  then show "style (getColorClass c v d) = [(''--btn-color'', c)]"
    by (simp add: getColorClass_def)
next
  fix p
  assume "c \<notin> set TAILWIND_COLORS" "p \<in> set TAILWIND_COLORS"
  then show "className (getColorClass c v d) \<noteq> className (getColorClass p v d)"
    by (rule custom_never_palette)
qed

theorem unrecognized_color_resolution_witness:
  "getButtonClasses_page (\<lambda>s. s)
      \<lparr> variant_page = Some outline_page, size_page = None, color_page = Some ''brand'',
        shape_page = None, loading_page = None, disabled_page = None \<rparr>
     = getButtonClasses_page (\<lambda>s. s)
      \<lparr> variant_page = Some outline_page, size_page = None, color_page = Some ''blue'',
        shape_page = None, loading_page = None, disabled_page = None \<rparr> \<and>
   style (getColorClass ''brand'' ''outline'' False) = [(''--btn-color'', ''brand'')] \<and>
   className (getColorClass ''brand'' ''outline'' False)
     \<noteq> className (getColorClass ''blue'' ''outline'' False)"
  using unrecognized_color_resolution
      [of "''brand''" "\<lambda>s. s"
          "\<lparr> variant_page = Some outline_page, size_page = None, color_page = None,
             shape_page = None, loading_page = None, disabled_page = None \<rparr>"
          "''outline''" False]
  by (simp add: TAILWIND_COLORS_def)

subsection \<open>Group positions\<close>






subsection \<open>Disabled buttons\<close>

text \<open>
  C10. A \<open>Button\<close> with \<open>disabled\<close> or \<open>loading\<close> set gets from \<open>getButtonClasses\<close> one
  fixed class string, whatever the variant, the color and the type are.
\<close>

theorem disabled_overrides_variant:
  "disabled \<or> loading \<Longrightarrow>
   Button_variantClass cn_ext variant color type disabled loading =
     ''bg-gray-200 text-gray-400 dark:bg-gray-700 dark:text-gray-500 cursor-not-allowed shadow-none''"
  by (simp add: Button_variantClass_def getButtonClasses_utils_def)

theorem disabled_overrides_variant_witness:
  "Button_variantClass (\<lambda>xs. concat xs) link_utils red_utils submit_type False True =
     ''bg-gray-200 text-gray-400 dark:bg-gray-700 dark:text-gray-500 cursor-not-allowed shadow-none'' \<and>
   Button_variantClass (\<lambda>xs. concat xs) primary_utils blue_utils default_type True False =
     ''bg-gray-200 text-gray-400 dark:bg-gray-700 dark:text-gray-500 cursor-not-allowed shadow-none''"
  using disabled_overrides_variant [of False True "\<lambda>xs. concat xs" link_utils red_utils submit_type]
    disabled_overrides_variant [of True False "\<lambda>xs. concat xs" primary_utils blue_utils default_type]
  by simp

subsection \<open>The focus of the alert dialog\<close>

lemma upt_split_at:
  "k < n \<Longrightarrow> [0..<n] = [0..<k] @ k # [Suc k..<n]"
proof -
  assume k: "k < n"
  then have "[0..<n] = [0..<k] @ [k..<n]"
    using upt_add_eq_append [of 0 k "n - k"] by simp
  then show ?thesis
    using k by (simp add: upt_conv_Cons)
qed

lemma querySelectorAll_first:
  assumes "\<forall>x\<in>set pre. \<not> sel x" "sel f"
  shows "\<exists>more. querySelectorAll sel (pre @ f # rest) = length pre # more"
proof -
  define els where "els = pre @ f # rest"
  define P where "P = (\<lambda>i. sel (els ! i))"
  have k: "length pre < length els" by (simp add: els_def)
  have none: "filter P [0..<length pre] = []"
    using assms(1) by (auto simp: filter_empty_conv nth_append P_def els_def)
  have here: "P (length pre)"
    using assms(2) by (simp add: P_def els_def)
  have "querySelectorAll sel els = filter P ([0..<length pre] @ length pre # [Suc (length pre)..<length els])"
    using upt_split_at [OF k] by (simp add: querySelectorAll_def P_def)
  also have "\<dots> = length pre # filter P [Suc (length pre)..<length els]"
    using none here by simp
  finally show ?thesis by (auto simp: els_def)
qed

lemma querySelectorAll_last:
  assumes "\<forall>x\<in>set post. \<not> sel x" "sel l"
  shows "\<exists>before. querySelectorAll sel (ini @ l # post) = before @ [length ini]"
proof -
  define els where "els = ini @ l # post"
  define P where "P = (\<lambda>i. sel (els ! i))"
  have k: "length ini < length els" by (simp add: els_def)
  have none: "filter P [Suc (length ini)..<length els] = []"
    using assms(1) by (auto simp: filter_empty_conv nth_append nth_Cons' P_def els_def)
  have here: "P (length ini)"
    using assms(2) by (simp add: P_def els_def)
  have "querySelectorAll sel els = filter P ([0..<length ini] @ length ini # [Suc (length ini)..<length els])"
    using upt_split_at [OF k] by (simp add: querySelectorAll_def P_def)
  also have "\<dots> = filter P [0..<length ini] @ [length ini]"
    using none here by simp
  finally show ?thesis by (auto simp: els_def)
qed

lemma querySelector_first:
  assumes "\<forall>x\<in>set pre. \<not> sel x" "sel f"
  shows "querySelector sel (pre @ f # rest) = Some (length pre)"
  using querySelectorAll_first [OF assms, of rest] by (auto simp: querySelector_def)

lemma querySelector_none:
  assumes "\<forall>x\<in>set els. \<not> sel x"
  shows "querySelector sel els = None"
  using assms by (simp add: querySelector_def querySelectorAll_def filter_empty_conv)

lemma querySelector_some:
  assumes "e \<in> set els" "sel e"
  shows "\<exists>i. querySelector sel els = Some i \<and> i < length els \<and> sel (els ! i)"
proof -
  obtain k where k: "k < length els" "els ! k = e"
    using assms(1) by (auto simp: in_set_conv_nth)
  then have "k \<in> set (querySelectorAll sel els)"
    using assms(2) by (simp add: querySelectorAll_def)
  then obtain i more where im: "querySelectorAll sel els = i # more"
    by (cases "querySelectorAll sel els") auto
  then have "i \<in> set (querySelectorAll sel els)" by simp
  then have "i < length els \<and> sel (els ! i)"
    by (simp add: querySelectorAll_def)
  then show ?thesis using im by (simp add: querySelector_def)
qed

text \<open>
  Where the element the code picks is not disabled, the focus goes where the code sends
  it: on opening to the first descendant marked default, else to the first match of the
  focusable selector, else to the container; on Tab at the last match of the handler's
  selector to the first match, and on Shift+Tab at the first match to the last.
\<close>

lemma focus_enabled:
  "\<not> is_disabled e \<Longrightarrow>
   focus (pre @ e # post) (Descendant (length pre)) s = s\<lparr>activeElement := Some (Descendant (length pre))\<rparr>"
  by (simp add: focus_def)

lemma openEffect_focus_enabled:
  "triggerElementRef (openEffect True (Some els) s) = activeElement s \<and>
   keydownListener (openEffect True (Some els) s) \<and>
   ((\<forall>x\<in>set pre. \<not> sel_default x) \<and> sel_default e \<and> \<not> is_disabled e \<longrightarrow>
      activeElement (openEffect True (Some (pre @ e # post)) s) = Some (Descendant (length pre))) \<and>
   ((\<forall>x\<in>set (pre @ e # post). \<not> sel_default x) \<and>
    (\<forall>x\<in>set pre. \<not> sel_focusable x) \<and> sel_focusable e \<and> \<not> is_disabled e \<longrightarrow>
      activeElement (openEffect True (Some (pre @ e # post)) s) = Some (Descendant (length pre))) \<and>
   ((\<forall>x\<in>set els. \<not> sel_default x \<and> \<not> sel_focusable x) \<longrightarrow>
      activeElement (openEffect True (Some els) s) = Some DialogContainer)"
proof (intro conjI impI)
  show "triggerElementRef (openEffect True (Some els) s) = activeElement s"
    by (simp add: openEffect_def focusOnOpen_def focus_def Let_def split: option.splits)
  show "keydownListener (openEffect True (Some els) s)"
    by (simp add: openEffect_def focusOnOpen_def focus_def Let_def split: option.splits)
next
  assume h: "(\<forall>x\<in>set pre. \<not> sel_default x) \<and> sel_default e \<and> \<not> is_disabled e"
  then have "querySelector sel_default (pre @ e # post) = Some (length pre)"
    using querySelector_first by blast
  then show "activeElement (openEffect True (Some (pre @ e # post)) s) = Some (Descendant (length pre))"
    using h by (simp add: openEffect_def focusOnOpen_def focus_enabled Let_def)
next
  assume h: "(\<forall>x\<in>set (pre @ e # post). \<not> sel_default x) \<and>
    (\<forall>x\<in>set pre. \<not> sel_focusable x) \<and> sel_focusable e \<and> \<not> is_disabled e"
  then have "querySelector sel_default (pre @ e # post) = None"
    using querySelector_none by blast
  moreover have "querySelector sel_focusable (pre @ e # post) = Some (length pre)"
    using h querySelector_first by blast
  ultimately show "activeElement (openEffect True (Some (pre @ e # post)) s) = Some (Descendant (length pre))"
    using h by (simp add: openEffect_def focusOnOpen_def focus_enabled Let_def)
next
  assume h: "\<forall>x\<in>set els. \<not> sel_default x \<and> \<not> sel_focusable x"
  then have "querySelector sel_default els = None" "querySelector sel_focusable els = None"
    using querySelector_none by blast+
  then show "activeElement (openEffect True (Some els) s) = Some DialogContainer"
    by (simp add: openEffect_def focusOnOpen_def focus_def Let_def)
qed

lemma handleKeyDown_wraps_enabled:
  assumes first: "els = pre @ f # rest" "\<forall>x\<in>set pre. \<not> sel_tabbable x" "sel_tabbable f"
    and last: "els = ini @ l # post" "\<forall>x\<in>set post. \<not> sel_tabbable x" "sel_tabbable l"
    and enabled: "\<not> is_disabled f" "\<not> is_disabled l"
  shows "(activeElement s = Some (Descendant (length ini)) \<longrightarrow>
           handleKeyDown (Some els) \<lparr> key = ''Tab'', shiftKey = False \<rparr> s
             = (s\<lparr>activeElement := Some (Descendant (length pre))\<rparr>, True)) \<and>
         (activeElement s = Some (Descendant (length pre)) \<longrightarrow>
           handleKeyDown (Some els) \<lparr> key = ''Tab'', shiftKey = True \<rparr> s
             = (s\<lparr>activeElement := Some (Descendant (length ini))\<rparr>, True))"
proof -
  define fs where "fs = querySelectorAll sel_tabbable els"
  obtain more where m: "fs = length pre # more"
    using querySelectorAll_first [OF first(2,3), of rest] first(1) fs_def by auto
  obtain before where b: "fs = before @ [length ini]"
    using querySelectorAll_last [OF last(2,3), of ini] last(1) fs_def by auto
  have ne: "length fs \<noteq> 0" using m by simp
  have hd: "fs ! 0 = length pre" using m by simp
  have la: "fs ! (length fs - 1) = length ini" using b by simp
  have ff: "focus els (Descendant (length pre)) s = s\<lparr>activeElement := Some (Descendant (length pre))\<rparr>"
    using focus_enabled [OF enabled(1)] first(1) by simp
  have fl: "focus els (Descendant (length ini)) s = s\<lparr>activeElement := Some (Descendant (length ini))\<rparr>"
    using focus_enabled [OF enabled(2)] last(1) by simp
  show ?thesis
    using ne hd la ff fl by (simp add: handleKeyDown_def Let_def fs_def [symmetric])
qed

text \<open>
  C7 (the code at the failing input). A dialog with the actions Cancel and Delete, the
  second one disabled, is opened while an element outside (number 7) has the focus. The
  default query finds the Delete button, descendant 11, which carries \<open>data-default\<close> as
  the last action and \<open>disabled\<close>. The code calls \<open>focus()\<close> on it and on nothing else:
  the element outside keeps the focus, although the close button and the Cancel button
  could take it.
\<close>

theorem openEffect_disabled_default:
  "querySelector sel_default (dialogDescendants [] []
      [\<lparr> label = ''Cancel'', act_variant = None, act_color = None, act_loading = None,
         act_disabled = None, isDefault = None, isDestructive = None \<rparr>,
       \<lparr> label = ''Delete'', act_variant = None, act_color = None, act_loading = None,
         act_disabled = Some True, isDefault = None, isDestructive = Some True \<rparr>]) = Some 11 \<and>
   is_disabled (dialogDescendants [] []
      [\<lparr> label = ''Cancel'', act_variant = None, act_color = None, act_loading = None,
         act_disabled = None, isDefault = None, isDestructive = None \<rparr>,
       \<lparr> label = ''Delete'', act_variant = None, act_color = None, act_loading = None,
         act_disabled = Some True, isDefault = None, isDestructive = Some True \<rparr>] ! 11) \<and>
   activeElement (openEffect True (Some (dialogDescendants [] []
      [\<lparr> label = ''Cancel'', act_variant = None, act_color = None, act_loading = None,
         act_disabled = None, isDefault = None, isDestructive = None \<rparr>,
       \<lparr> label = ''Delete'', act_variant = None, act_color = None, act_loading = None,
         act_disabled = Some True, isDefault = None, isDestructive = Some True \<rparr>]))
     \<lparr> activeElement = Some (Outside 7), triggerElementRef = None, keydownListener = False,
       onCloseCalls = 0 \<rparr>) = Some (Outside 7)"
  by (simp add: openEffect_def focusOnOpen_def focus_def querySelector_def querySelectorAll_def
      dialogDescendants_def actionButton_def Button_ad_def plain_def sel_default_def
      sel_focusable_def is_disabled_def has_attr_def truthy_def Let_def enumerate_eq_zip)

text \<open>
  C8 (the code at the failing input). The same dialog, open. The handler's selector
  matches the close button (descendant 0), the Cancel button (8) and the disabled Delete
  button (11). Shift+Tab with the focus on the close button, the first match: the
  handler calls \<open>focus()\<close> on the disabled button and prevents the default, so the focus
  stays on the close button. Tab with the focus on the Cancel button, the last element
  that can hold the focus: it is not the last match, so the handler does nothing and
  the focus is not sent to the first element.
\<close>

theorem handleKeyDown_disabled_last:
  "querySelectorAll sel_tabbable (dialogDescendants [] []
      [\<lparr> label = ''Cancel'', act_variant = None, act_color = None, act_loading = None,
         act_disabled = None, isDefault = None, isDestructive = None \<rparr>,
       \<lparr> label = ''Delete'', act_variant = None, act_color = None, act_loading = None,
         act_disabled = Some True, isDefault = None, isDestructive = Some True \<rparr>]) = [0, 8, 11] \<and>
   handleKeyDown (Some (dialogDescendants [] []
      [\<lparr> label = ''Cancel'', act_variant = None, act_color = None, act_loading = None,
         act_disabled = None, isDefault = None, isDestructive = None \<rparr>,
       \<lparr> label = ''Delete'', act_variant = None, act_color = None, act_loading = None,
         act_disabled = Some True, isDefault = None, isDestructive = Some True \<rparr>]))
     \<lparr> key = ''Tab'', shiftKey = True \<rparr>
     \<lparr> activeElement = Some (Descendant 0), triggerElementRef = Some (Outside 7), keydownListener = True,
       onCloseCalls = 0 \<rparr>
   = (\<lparr> activeElement = Some (Descendant 0), triggerElementRef = Some (Outside 7), keydownListener = True,
       onCloseCalls = 0 \<rparr>, True) \<and>
   handleKeyDown (Some (dialogDescendants [] []
      [\<lparr> label = ''Cancel'', act_variant = None, act_color = None, act_loading = None,
         act_disabled = None, isDefault = None, isDestructive = None \<rparr>,
       \<lparr> label = ''Delete'', act_variant = None, act_color = None, act_loading = None,
         act_disabled = Some True, isDefault = None, isDestructive = Some True \<rparr>]))
     \<lparr> key = ''Tab'', shiftKey = False \<rparr>
     \<lparr> activeElement = Some (Descendant 8), triggerElementRef = Some (Outside 7), keydownListener = True,
       onCloseCalls = 0 \<rparr>
   = (\<lparr> activeElement = Some (Descendant 8), triggerElementRef = Some (Outside 7), keydownListener = True,
       onCloseCalls = 0 \<rparr>, False)"
  by (simp add: handleKeyDown_def focus_def querySelectorAll_def
      dialogDescendants_def actionButton_def Button_ad_def plain_def sel_tabbable_def
      is_disabled_def has_attr_def truthy_def Let_def enumerate_eq_zip)

lemma Button_ad_hd:
  "hd (Button_ad loading disabled rest childEls hasChildren) =
     \<lparr> tag = ''button'',
       attrs = (if truthy disabled \<or> truthy loading then [(''disabled'', '''')] else []) @ rest \<rparr>"
  by (simp add: Button_ad_def Let_def)

lemma Button_ad_hd_in: "hd (Button_ad loading disabled rest childEls hasChildren)
    \<in> set (Button_ad loading disabled rest childEls hasChildren)"
  by (simp add: Button_ad_def Let_def)

lemma enumerate_last:
  "xs \<noteq> [] \<Longrightarrow> (length xs - 1, last xs) \<in> set (enumerate 0 xs)"
  by (auto simp: in_set_enumerate_eq last_conv_nth)

text \<open>
  C9. For a non-empty list of actions, whatever their \<open>isDefault\<close> flags, the \<open>button\<close>
  rendered for the last action carries \<open>data-default="true"\<close>; it is a descendant of the
  dialog, so the query for the default element of an open dialog with actions finds an
  element.
\<close>

theorem last_action_marked_default:
  assumes "actions \<noteq> []"
  shows "tag (hd (actionButton actions (length actions - 1, last actions))) = ''button'' \<and>
         sel_default (hd (actionButton actions (length actions - 1, last actions))) \<and>
         hd (actionButton actions (length actions - 1, last actions))
           \<in> set (dialogDescendants title description actions) \<and>
         (\<exists>i. querySelector sel_default (dialogDescendants title description actions) = Some i)"
proof -
  let ?b = "hd (actionButton actions (length actions - 1, last actions))"
  have t: "tag ?b = ''button''"
    by (simp add: actionButton_def Let_def Button_ad_hd)
  have d: "sel_default ?b"
    by (simp add: actionButton_def Let_def Button_ad_hd sel_default_def)
  have "?b \<in> set (actionButton actions (length actions - 1, last actions))"
    by (simp add: actionButton_def Let_def Button_ad_hd_in)
  then have m: "?b \<in> set (dialogDescendants title description actions)"
    using enumerate_last [OF assms] by (force simp add: dialogDescendants_def)
  show ?thesis
    using t d m querySelector_some [of ?b _ sel_default, OF m d] by blast
qed

theorem last_action_marked_default_witness:
  "sel_default (hd (actionButton
      [\<lparr> label = ''Cancel'', act_variant = None, act_color = None, act_loading = None,
         act_disabled = None, isDefault = None, isDestructive = None \<rparr>,
       \<lparr> label = ''Delete'', act_variant = None, act_color = None, act_loading = None,
         act_disabled = None, isDefault = None, isDestructive = Some True \<rparr>]
      (1, \<lparr> label = ''Delete'', act_variant = None, act_color = None, act_loading = None,
         act_disabled = None, isDefault = None, isDestructive = Some True \<rparr>))) \<and>
   querySelector sel_default (dialogDescendants [] []
      [\<lparr> label = ''Cancel'', act_variant = None, act_color = None, act_loading = None,
         act_disabled = None, isDefault = None, isDestructive = None \<rparr>,
       \<lparr> label = ''Delete'', act_variant = None, act_color = None, act_loading = None,
         act_disabled = None, isDefault = None, isDestructive = Some True \<rparr>]) = Some 11"
  using last_action_marked_default
      [of "[\<lparr> label = ''Cancel'', act_variant = None, act_color = None, act_loading = None,
         act_disabled = None, isDefault = None, isDestructive = None \<rparr>,
       \<lparr> label = ''Delete'', act_variant = None, act_color = None, act_loading = None,
         act_disabled = None, isDefault = None, isDestructive = Some True \<rparr>]" "[]" "[]"]
  by (simp add: querySelector_def querySelectorAll_def dialogDescendants_def actionButton_def
      Button_ad_def plain_def sel_default_def truthy_def Let_def enumerate_eq_zip)

end
